theory Spec2Isabelle
  imports Main
begin

section \<open>JavaScript values and objects\<close>

text \<open>
  The mixin of \<^verbatim>\<open>d2l-organization-hm-mixin.js\<close> works on plain JavaScript objects
  keyed by strings. The own properties of an object are modelled by the list of its
  keys and values in the order of their creation. Such an object inherits from
  \<^verbatim>\<open>Object.prototype\<close>: a read of a key that is not an own property goes on there, and
  a write through a value that was inherited lands on an object that outlives the call.
  The file is an ES module, so its code runs in strict mode.
\<close>

datatype error = TypeError

type_synonym 'a object = "(string \<times> 'a) list"

text \<open>The own property of a key, and the assignment to an own property.\<close>

definition get_prop :: "'a object \<Rightarrow> string \<Rightarrow> 'a option" where
  "get_prop obj k = map_of obj k"

fun set_prop :: "'a object \<Rightarrow> string \<Rightarrow> 'a \<Rightarrow> 'a object" where
  "set_prop [] k v = [(k, v)]"
| "set_prop ((k', v') # rest) k v =
     (if k' = k then (k, v) # rest else (k', v') # set_prop rest k v)"

text \<open>
  A key is an array index when it is the canonical decimal text (no sign, no leading
  zero) of an integer up to \<open>2\<^sup>3\<^sup>2 - 2 = 4294967294\<close>. Canonical decimal texts are
  compared as numbers by their lengths first and digit by digit for equal lengths. The
  own keys of an object are enumerated, by \<^verbatim>\<open>Object.keys\<close> and by \<^verbatim>\<open>for..in\<close>, with
  the array indices first, in ascending numeric order, and then the other keys in the
  order of their creation.
\<close>

definition is_digit :: "char \<Rightarrow> bool" where
  "is_digit c = (c \<in> set ''0123456789'')"

definition canonical_digits :: "string \<Rightarrow> bool" where
  "canonical_digits k = (k \<noteq> [] \<and> list_all is_digit k \<and> (k = ''0'' \<or> hd k \<noteq> CHR ''0''))"

fun digits_le :: "string \<Rightarrow> string \<Rightarrow> bool" where
  "digits_le [] ys = True"
| "digits_le (x # xs) [] = False"
| "digits_le (x # xs) (y # ys) =
     (if x = y then digits_le xs ys else (of_char x :: nat) < of_char y)"

definition index_le :: "string \<Rightarrow> string \<Rightarrow> bool" where
  "index_le a b = (length a < length b \<or> (length a = length b \<and> digits_le a b))"

definition array_index :: "string \<Rightarrow> bool" where
  "array_index k = (canonical_digits k \<and> index_le k ''4294967294'')"

fun insert_index :: "string \<Rightarrow> string list \<Rightarrow> string list" where
  "insert_index k [] = [k]"
| "insert_index k (j # js) = (if index_le k j then k # j # js else j # insert_index k js)"

definition index_keys :: "string list \<Rightarrow> string list" where
  "index_keys ks = foldr insert_index (filter array_index ks) []"

definition object_keys :: "'a object \<Rightarrow> string list" where
  "object_keys obj = map fst obj"

definition own_keys :: "'a object \<Rightarrow> string list" where
  "own_keys obj =
     index_keys (object_keys obj) @ filter (\<lambda>k. \<not> array_index k) (object_keys obj)"

text \<open>Truthiness of a value that is a string or \<^verbatim>\<open>undefined\<close>: the empty string is falsy.\<close>

definition truthy :: "string option \<Rightarrow> bool" where
  "truthy v = (case v of None \<Rightarrow> False | Some s \<Rightarrow> s \<noteq> [])"

text \<open>Truthiness of the optional boolean flag \<^verbatim>\<open>forceImageRefresh\<close>.\<close>

definition flag_set :: "bool option \<Rightarrow> bool" where
  "flag_set f = (case f of None \<Rightarrow> False | Some b \<Rightarrow> b)"

text \<open>The operator \<^verbatim>\<open>a || b\<close> on such values.\<close>

definition js_or :: "string option \<Rightarrow> string option \<Rightarrow> string option" where
  "js_or a b = (if truthy a then a else b)"

text \<open>Decimal rendering of a non-negative integer, as string concatenation does it.\<close>

definition digit_char :: "nat \<Rightarrow> char" where
  "digit_char d = char_of (48 + d)"

fun show_nat :: "nat \<Rightarrow> string" where
  "show_nat n = (if n < 10 then [digit_char n] else show_nat (n div 10) @ [digit_char (n mod 10)])"

declare show_nat.simps [simp del]

text \<open>\<^verbatim>\<open>String.prototype.split\<close> with a one-character separator.\<close>

fun split_on :: "char \<Rightarrow> string \<Rightarrow> string list" where
  "split_on c [] = [[]]"
| "split_on c (x # xs) =
     (if x = c then [] # split_on c xs
      else (case split_on c xs of [] \<Rightarrow> [[x]] | s # ss \<Rightarrow> (x # s) # ss))"

text \<open>
  \<^verbatim>\<open>s.replace(/,\s*$/, '')\<close>: the leftmost comma that only white space follows up to
  the end of the string is removed together with that white space. The white space of
  the model is the ASCII one; the builder's string ends in a comma and one blank, so no
  other kind can occur after its last comma.
\<close>

definition is_space :: "char \<Rightarrow> bool" where
  "is_space c = (c \<in> set [CHR '' '', CHR 0x09, CHR 0x0A, CHR 0x0B, CHR 0x0C, CHR 0x0D])"

fun strip_trailing_comma :: "string \<Rightarrow> string" where
  "strip_trailing_comma [] = []"
| "strip_trailing_comma (c # cs) =
     (if c = CHR '','' \<and> list_all is_space cs then [] else c # strip_trailing_comma cs)"

section \<open>The prototype chain\<close>

text \<open>
  The values that the mixin can hold in the variables \<^verbatim>\<open>sizes\<close>, \<^verbatim>\<open>jpegLinks\<close> and
  \<^verbatim>\<open>breakpoints\<close>: \<^verbatim>\<open>undefined\<close>, a string, a size map created by \<^verbatim>\<open>{}\<close> in the call
  (given by its own properties, which hold links' targets), and two kinds of inherited
  value, \<^verbatim>\<open>Object.prototype\<close> itself (what the accessor \<^verbatim>\<open>__proto__\<close> returns) and one
  of its built-in methods (named by its key).
\<close>

datatype jsval = Undefined | Str string | Fun string | ObjectPrototype | Obj "string object"

definition js_truthy :: "jsval \<Rightarrow> bool" where
  "js_truthy v = (case v of Undefined \<Rightarrow> False | Str s \<Rightarrow> s \<noteq> [] | _ \<Rightarrow> True)"

text \<open>
  The state that outlives a call: the string-valued properties that have been added to
  \<^verbatim>\<open>Object.prototype\<close>, in the order of their creation, and those added to each of its
  built-in methods. In the standard environment there are none.
\<close>

record realm =
  proto_props :: "string object"
  fun_props :: "string object object"

definition initial_realm :: realm where
  "initial_realm = \<lparr>proto_props = [], fun_props = []\<rparr>"

definition builtin_names :: "string list" where
  "builtin_names =
     [''constructor'', ''__defineGetter__'', ''__defineSetter__'', ''hasOwnProperty'',
      ''__lookupGetter__'', ''__lookupSetter__'', ''isPrototypeOf'', ''propertyIsEnumerable'',
      ''toString'', ''valueOf'', ''toLocaleString'']"

text \<open>The keys that every plain object inherits in the standard environment.\<close>

definition proto_member :: "string \<Rightarrow> bool" where
  "proto_member k = (k = ''__proto__'' \<or> k \<in> set builtin_names)"

text \<open>
  Reading the key \<open>k\<close> of a plain object that has no own property \<open>k\<close>: the accessor
  \<^verbatim>\<open>__proto__\<close> gives the prototype, an added property gives its string, a built-in
  method gives the method.
\<close>

definition proto_get :: "realm \<Rightarrow> string \<Rightarrow> jsval" where
  "proto_get r k =
     (if k = ''__proto__'' then ObjectPrototype
      else case get_prop (proto_props r) k of
             Some s \<Rightarrow> Str s
           | None \<Rightarrow> if k \<in> set builtin_names then Fun k else Undefined)"

text \<open>
  \<^verbatim>\<open>obj[k]\<close> for a plain object with the own properties \<open>own\<close>. No assignment creates
  an own property \<^verbatim>\<open>__proto__\<close>: it goes to the accessor.
\<close>

definition obj_get :: "realm \<Rightarrow> jsval object \<Rightarrow> string \<Rightarrow> jsval" where
  "obj_get r own k =
     (if k = ''__proto__'' then ObjectPrototype
      else case get_prop own k of Some v \<Rightarrow> v | None \<Rightarrow> proto_get r k)"

definition fun_own :: "realm \<Rightarrow> string \<Rightarrow> string object" where
  "fun_own r f = (case get_prop (fun_props r) f of None \<Rightarrow> [] | Some ps \<Rightarrow> ps)"

text \<open>
  \<^verbatim>\<open>v[k]\<close> for a value other than \<^verbatim>\<open>undefined\<close> and a key \<open>k\<close> that is one of the
  size names (none of which is a built-in property of an object, a function or a
  string): the own property, else the property added to \<^verbatim>\<open>Object.prototype\<close>.
\<close>

definition size_read :: "realm \<Rightarrow> jsval \<Rightarrow> string \<Rightarrow> string option" where
  "size_read r v k =
     (case v of
        Obj sm \<Rightarrow> (case get_prop sm k of Some s \<Rightarrow> Some s | None \<Rightarrow> get_prop (proto_props r) k)
      | Fun f \<Rightarrow> (case get_prop (fun_own r f) k of
                   Some s \<Rightarrow> Some s
                 | None \<Rightarrow> get_prop (proto_props r) k)
      | ObjectPrototype \<Rightarrow> get_prop (proto_props r) k
      | Str s \<Rightarrow> get_prop (proto_props r) k
      | Undefined \<Rightarrow> None)"

text \<open>Reading a property of \<^verbatim>\<open>undefined\<close> throws.\<close>

definition val_get :: "realm \<Rightarrow> jsval \<Rightarrow> string \<Rightarrow> error + string option" where
  "val_get r v k = (case v of Undefined \<Rightarrow> Inl TypeError | _ \<Rightarrow> Inr (size_read r v k))"

text \<open>
  The enumerable keys that \<^verbatim>\<open>for..in\<close> visits on a plain object: its own keys, then
  the keys added to \<^verbatim>\<open>Object.prototype\<close> that no own property shadows.
\<close>

definition forin_keys :: "realm \<Rightarrow> jsval object \<Rightarrow> string list" where
  "forin_keys r own =
     own_keys own
       @ filter (\<lambda>k. \<not> proto_member k \<and> k \<notin> set (object_keys own)) (own_keys (proto_props r))"

section \<open>Links and image entities\<close>

text \<open>
  A link of the hypermedia entity: its media type (as the property key that
  \<^verbatim>\<open>link.type\<close> converts to), its target and its classes. The entity itself is given
  by the value of \<^verbatim>\<open>image.href\<close> (present on a linked, unhydrated entity) and by its
  accessor \<^verbatim>\<open>getLinksByClass\<close>, which belongs to the hypermedia library and is a
  parameter here.
\<close>

record link =
  link_type :: string
  link_href :: string
  classes :: "string list"

record entity =
  href :: "string option"
  getLinksByClass :: "string \<Rightarrow> link list"

text \<open>
  Modelled from the spec: the link predicate \<^verbatim>\<open>hasClass\<close> of the hypermedia library
  (not part of this repository), "does this link carry class X".
\<close>

definition hasClass :: "link \<Rightarrow> string \<Rightarrow> bool" where
  "hasClass l c = (c \<in> set (classes l))"

text \<open>
  Modelled from the spec: the accessor of a hydrated entity over a given collection of
  links, returning those that carry the class, in their given order.
\<close>

definition hydrated :: "link list \<Rightarrow> entity" where
  "hydrated ls = \<lparr>href = None, getLinksByClass = (\<lambda>c. filter (\<lambda>l. hasClass l c) ls)\<rparr>"

section \<open>The static tables\<close>

definition sizeNames :: "string list" where
  "sizeNames = [''lowMin'', ''lowMid'', ''lowMax'', ''highMin'', ''highMid'', ''highMax'']"

definition tile_breakpoints :: "nat object" where
  "tile_breakpoints =
     [(''lowMin'', 145), (''lowMid'', 220), (''lowMax'', 540),
      (''highMin'', 290), (''highMid'', 440), (''highMax'', 1080)]"

definition narrow_breakpoints :: "nat object" where
  "narrow_breakpoints =
     [(''lowMin'', 320), (''lowMid'', 375), (''lowMax'', 767),
      (''highMin'', 640), (''highMid'', 750), (''highMax'', 1534)]"

definition srcSetBreakpoints :: "nat object object" where
  "srcSetBreakpoints = [(''tile'', tile_breakpoints), (''narrow'', narrow_breakpoints)]"

text \<open>
  What \<^verbatim>\<open>_getSrcsetBreakpoints\<close> returns: one of the tables, or a truthy value that
  the object of the tables inherits under the key \<^verbatim>\<open>imageClass\<close>.
\<close>

datatype breakpoints = Table "nat object" | NoTable jsval

text \<open>
  \<^verbatim>\<open>breakpoints[imageClass] || breakpoints.narrow\<close>; an absent \<^verbatim>\<open>imageClass\<close> reads
  the key \<^verbatim>\<open>undefined\<close>.
\<close>

definition class_key :: "string option \<Rightarrow> string" where
  "class_key imageClass = (case imageClass of None \<Rightarrow> ''undefined'' | Some c \<Rightarrow> c)"

definition getSrcsetBreakpoints :: "realm \<Rightarrow> string option \<Rightarrow> breakpoints" where
  "getSrcsetBreakpoints r imageClass =
     (case get_prop srcSetBreakpoints (class_key imageClass) of
        Some t \<Rightarrow> Table t
      | None \<Rightarrow> if js_truthy (proto_get r (class_key imageClass))
                then NoTable (proto_get r (class_key imageClass))
                else Table narrow_breakpoints)"

text \<open>
  The text that \<^verbatim>\<open>breakpoints[sizeName]\<close> contributes to a concatenation: the
  decimal digits of a width, an inherited string, or \<^verbatim>\<open>undefined\<close>.
\<close>

definition width_text :: "realm \<Rightarrow> breakpoints \<Rightarrow> string \<Rightarrow> string" where
  "width_text r b k =
     (case b of
        Table t \<Rightarrow> (case get_prop t k of
                      Some w \<Rightarrow> show_nat w
                    | None \<Rightarrow> (case get_prop (proto_props r) k of
                                 Some s \<Rightarrow> s
                               | None \<Rightarrow> ''undefined''))
      | NoTable v \<Rightarrow> (case size_read r v k of Some s \<Rightarrow> s | None \<Rightarrow> ''undefined''))"

section \<open>The link classifier\<close>

type_synonym sizes = "string object"

text \<open>\<^verbatim>\<open>imageClass || 'tile'\<close>.\<close>

definition class_or_tile :: "string option \<Rightarrow> string" where
  "class_or_tile imageClass =
     (case imageClass of None \<Rightarrow> ''tile'' | Some c \<Rightarrow> if c = [] then ''tile'' else c)"

text \<open>
  The value of \<^verbatim>\<open>hasClass('min') && 'Min' || hasClass('mid') && 'Mid' || hasClass('max') && 'Max'\<close>:
  one of the three strings, or \<^verbatim>\<open>false\<close> (here \<open>None\<close>).
\<close>

definition size_of :: "link \<Rightarrow> string option" where
  "size_of l =
     (if hasClass l ''min'' then Some ''Min''
      else if hasClass l ''mid'' then Some ''Mid''
      else if hasClass l ''max'' then Some ''Max''
      else None)"

definition density_of :: "link \<Rightarrow> string" where
  "density_of l = (if hasClass l ''high-density'' then ''high'' else ''low'')"

text \<open>\<^verbatim>\<open>density + size\<close>: the boolean \<^verbatim>\<open>false\<close> is concatenated as the text "false".\<close>

definition size_key :: "link \<Rightarrow> string" where
  "size_key l = density_of l @ (case size_of l of None \<Rightarrow> ''false'' | Some s \<Rightarrow> s)"

text \<open>
  The body of the \<^verbatim>\<open>forEach\<close> callback (lines 83 to 86), on the own properties of
  \<^verbatim>\<open>sizesByType\<close> and the realm. Line 83 reads \<^verbatim>\<open>sizesByType[link.type]\<close> through
  the prototype chain, takes a new \<^verbatim>\<open>{}\<close> when the value is falsy, and assigns the
  value to the key, which creates or sets an own property unless the key is
  \<^verbatim>\<open>__proto__\<close>. Line 86 stores the target on that value: on the size map, on the
  inherited method, or on \<^verbatim>\<open>Object.prototype\<close>; on a string it throws, the code being
  strict.
\<close>

definition add_link :: "realm \<Rightarrow> jsval object \<Rightarrow> link \<Rightarrow> (error + jsval object) \<times> realm" where
  "add_link r sizesByType l =
     (let t = link_type l;
          found = obj_get r sizesByType t;
          sizes = (if js_truthy found then found else Obj []);
          assigned = (if t = ''__proto__'' then sizesByType else set_prop sizesByType t sizes)
      in case sizes of
           Obj sm \<Rightarrow>
             (Inr (set_prop sizesByType t (Obj (set_prop sm (size_key l) (link_href l)))), r)
         | Fun f \<Rightarrow>
             (Inr assigned,
              r\<lparr>fun_props :=
                   set_prop (fun_props r) f (set_prop (fun_own r f) (size_key l) (link_href l))\<rparr>)
         | ObjectPrototype \<Rightarrow>
             (Inr assigned,
              r\<lparr>proto_props := set_prop (proto_props r) (size_key l) (link_href l)\<rparr>)
         | Str s \<Rightarrow> (Inl TypeError, r)
         | Undefined \<Rightarrow> (Inl TypeError, r))"

text \<open>\<^verbatim>\<open>imageLinks.forEach\<close>: an exception ends the loop, and what was stored stays.\<close>

fun forEach_link :: "realm \<Rightarrow> jsval object \<Rightarrow> link list \<Rightarrow> (error + jsval object) \<times> realm" where
  "forEach_link r sizesByType [] = (Inr sizesByType, r)"
| "forEach_link r sizesByType (l # ls) =
     (case add_link r sizesByType l of
        (Inl e, r') \<Rightarrow> (Inl e, r')
      | (Inr sizesByType', r') \<Rightarrow> forEach_link r' sizesByType' ls)"

definition getImageLinks ::
  "realm \<Rightarrow> entity \<Rightarrow> string option \<Rightarrow> (error + jsval object) \<times> realm" where
  "getImageLinks r img imageClass =
     forEach_link r [] (getLinksByClass img (class_or_tile imageClass))"

section \<open>The best-type selector\<close>

text \<open>
  Lines 93 to 100 of the source, on the classifier's result: the value read under
  \<^verbatim>\<open>image/jpeg\<close> when it is truthy, else the value read under the first key that
  \<^verbatim>\<open>for..in\<close> visits, else \<^verbatim>\<open>undefined\<close>.
\<close>

definition bestOf :: "realm \<Rightarrow> jsval object \<Rightarrow> jsval" where
  "bestOf r linksByType =
     (let jpegLinks = obj_get r linksByType ''image/jpeg''
      in if js_truthy jpegLinks then jpegLinks
         else case forin_keys r linksByType of
                [] \<Rightarrow> Undefined
              | t # _ \<Rightarrow> obj_get r linksByType t)"

definition getBestImageLinks ::
  "realm \<Rightarrow> entity \<Rightarrow> string option \<Rightarrow> (error + jsval) \<times> realm" where
  "getBestImageLinks r img imageClass =
     (case getImageLinks r img imageClass of
        (Inl e, r') \<Rightarrow> (Inl e, r')
      | (Inr linksByType, r') \<Rightarrow> (Inr (bestOf r' linksByType), r'))"

section \<open>The srcset builder\<close>

text \<open>
  \<^verbatim>\<open>Date.now()\<close> reads the clock. The clock is a parameter: \<open>clk i\<close> is the value of
  the \<open>i\<close>-th reading, and the number of readings made so far is threaded through the
  functions that may read it.
\<close>

type_synonym clock = "nat \<Rightarrow> nat"

text \<open>\<^verbatim>\<open>sizeHref.split('?')[1] ? '&' : '?'\<close>.\<close>

definition separator :: "string \<Rightarrow> string" where
  "separator sizeHref =
     (case split_on CHR ''?'' sizeHref of
        _ # q # _ \<Rightarrow> if q \<noteq> [] then ''&'' else ''?''
      | _ \<Rightarrow> ''?'')"

text \<open>
  The callback of \<^verbatim>\<open>reduce\<close>. Reading \<^verbatim>\<open>sizes[sizeName]\<close> when \<^verbatim>\<open>sizes\<close> is
  \<^verbatim>\<open>undefined\<close> throws a \<^verbatim>\<open>TypeError\<close>, which ends the whole call; an entry that is
  missing or the empty string is falsy and leaves the accumulator as it is.
\<close>

definition srcset_step ::
  "realm \<Rightarrow> clock \<Rightarrow> jsval \<Rightarrow> breakpoints \<Rightarrow> bool option \<Rightarrow>
   (error + string) \<times> nat \<Rightarrow> string \<Rightarrow> (error + string) \<times> nat" where
  "srcset_step r clk sizes breakpoints forceImageRefresh st sizeName =
     (case st of
        (Inl e, n) \<Rightarrow> (Inl e, n)
      | (Inr srcset, n) \<Rightarrow>
          (case val_get r sizes sizeName of
             Inl e \<Rightarrow> (Inl e, n)
           | Inr None \<Rightarrow> (Inr srcset, n)
           | Inr (Some sizeHref) \<Rightarrow>
               if sizeHref = [] then (Inr srcset, n)
               else if flag_set forceImageRefresh
               then (Inr (srcset @ (sizeHref @ separator sizeHref @ ''timestamp='' @ show_nat (clk n))
                            @ '' '' @ width_text r breakpoints sizeName @ ''w, ''),
                     Suc n)
               else (Inr (srcset @ sizeHref
                            @ '' '' @ width_text r breakpoints sizeName @ ''w, ''),
                     n)))"

definition getSrcSet ::
  "realm \<Rightarrow> clock \<Rightarrow> nat \<Rightarrow> jsval \<Rightarrow> string option \<Rightarrow> bool option \<Rightarrow>
   (error + string) \<times> nat" where
  "getSrcSet r clk n sizes imageClass forceImageRefresh =
     (let breakpoints = getSrcsetBreakpoints r imageClass
      in case foldl (srcset_step r clk sizes breakpoints forceImageRefresh) (Inr [], n) sizeNames of
           (Inl e, n') \<Rightarrow> (Inl e, n')
         | (Inr srcset, n') \<Rightarrow> (Inr (strip_trailing_comma srcset), n'))"

section \<open>The entry points\<close>

record source =
  source_type :: string
  source_srcset :: string

text \<open>
  \<^verbatim>\<open>Object.keys(linksByType).map(...)\<close>: one source per own key, in the order of
  enumeration, the clock being read from left to right.
\<close>

fun map_sources ::
  "realm \<Rightarrow> clock \<Rightarrow> jsval object \<Rightarrow> string option \<Rightarrow> bool option \<Rightarrow> nat \<Rightarrow> string list \<Rightarrow>
   (error + source list) \<times> nat" where
  "map_sources r clk linksByType imageClass forceImageRefresh n [] = (Inr [], n)"
| "map_sources r clk linksByType imageClass forceImageRefresh n (t # ts) =
     (case getSrcSet r clk n (obj_get r linksByType t) imageClass forceImageRefresh of
        (Inl e, n') \<Rightarrow> (Inl e, n')
      | (Inr srcset, n') \<Rightarrow>
          (case map_sources r clk linksByType imageClass forceImageRefresh n' ts of
             (Inl e, n'') \<Rightarrow> (Inl e, n'')
           | (Inr rest, n'') \<Rightarrow>
               (Inr (\<lparr>source_type = t, source_srcset = srcset\<rparr> # rest), n'')))"

text \<open>
  The image argument is \<open>None\<close> when it is absent (\<^verbatim>\<open>null\<close> or \<^verbatim>\<open>undefined\<close>). A
  result \<open>Inr None\<close> is the \<^verbatim>\<open>undefined\<close> of a bare \<^verbatim>\<open>return\<close>. Each entry point
  takes the realm it runs in and returns the realm it leaves.
\<close>

definition getPictureSrcsets ::
  "realm \<Rightarrow> clock \<Rightarrow> nat \<Rightarrow> entity option \<Rightarrow> string option \<Rightarrow> bool option \<Rightarrow>
   (error + source list option) \<times> nat \<times> realm" where
  "getPictureSrcsets r clk n img imageClass forceImageRefresh =
     (case img of
        None \<Rightarrow> (Inr None, n, r)
      | Some e \<Rightarrow>
          if truthy (href e) then (Inr None, n, r)
          else (case getImageLinks r e imageClass of
                  (Inl err, r') \<Rightarrow> (Inl err, n, r')
                | (Inr linksByType, r') \<Rightarrow>
                    (case map_sources r' clk linksByType imageClass forceImageRefresh n
                            (own_keys linksByType) of
                       (Inl err, n') \<Rightarrow> (Inl err, n', r')
                     | (Inr sources, n') \<Rightarrow> (Inr (Some sources), n', r'))))"

definition getImageSrcset ::
  "realm \<Rightarrow> clock \<Rightarrow> nat \<Rightarrow> entity option \<Rightarrow> string option \<Rightarrow> bool option \<Rightarrow>
   (error + string option) \<times> nat \<times> realm" where
  "getImageSrcset r clk n img imageClass forceImageRefresh =
     (case img of
        None \<Rightarrow> (Inr None, n, r)
      | Some e \<Rightarrow>
          if truthy (href e) then (Inr None, n, r)
          else (case getBestImageLinks r e imageClass of
                  (Inl err, r') \<Rightarrow> (Inl err, n, r')
                | (Inr defaultLinks, r') \<Rightarrow>
                    (case getSrcSet r' clk n defaultLinks imageClass forceImageRefresh of
                       (Inl err, n') \<Rightarrow> (Inl err, n', r')
                     | (Inr srcset, n') \<Rightarrow> (Inr (Some srcset), n', r'))))"

text \<open>The chain of \<^verbatim>\<open>||\<close> of line 77, on a truthy value.\<close>

definition pick_default :: "realm \<Rightarrow> jsval \<Rightarrow> string option" where
  "pick_default r sizes =
     js_or (js_or (js_or (js_or (js_or (size_read r sizes ''highMax'') (size_read r sizes ''lowMax''))
                                (size_read r sizes ''highMid''))
                         (size_read r sizes ''lowMid''))
                  (size_read r sizes ''highMin''))
           (size_read r sizes ''lowMin'')"

definition getDefaultImageLink ::
  "realm \<Rightarrow> entity option \<Rightarrow> string option \<Rightarrow> (error + string option) \<times> realm" where
  "getDefaultImageLink r img imageClass =
     (case img of
        None \<Rightarrow> (Inr None, r)
      | Some e \<Rightarrow>
          if truthy (href e) then (Inr None, r)
          else (case getBestImageLinks r e imageClass of
                  (Inl err, r') \<Rightarrow> (Inl err, r')
                | (Inr sizes, r') \<Rightarrow>
                    if js_truthy sizes then (Inr (pick_default r' sizes), r')
                    else (Inr None, r')))"

section \<open>Notions used to state the properties\<close>

text \<open>
  What the callback of the classifier does to a mapping from media types to size maps
  when nothing is inherited under the media type: the size map of the type, a new one
  when there is none, gets the link's target under the link's key.
\<close>

definition plain_add_link :: "sizes object \<Rightarrow> link \<Rightarrow> sizes object" where
  "plain_add_link sizesByType l =
     (let sizes = (case get_prop sizesByType (link_type l) of None \<Rightarrow> [] | Some s \<Rightarrow> s)
      in set_prop sizesByType (link_type l) (set_prop sizes (size_key l) (link_href l)))"

definition as_objects :: "sizes object \<Rightarrow> jsval object" where
  "as_objects obj = map (\<lambda>(t, s). (t, Obj s)) obj"

text \<open>
  The entry of a classifier result for a media type and a size name: the own property
  of the size map that is the own property of the result.
\<close>

definition size_at :: "jsval object \<Rightarrow> string \<Rightarrow> string \<Rightarrow> string option" where
  "size_at obj t k =
     (case get_prop obj t of Some (Obj s) \<Rightarrow> get_prop s k | _ \<Rightarrow> None)"

text \<open>A link is classifiable when it carries one of the three size-tier classes.\<close>

definition classifiable :: "link \<Rightarrow> bool" where
  "classifiable l = (hasClass l ''min'' \<or> hasClass l ''mid'' \<or> hasClass l ''max'')"

text \<open>The same entity with the links that are not classifiable taken away.\<close>

definition drop_unclassifiable :: "entity \<Rightarrow> entity" where
  "drop_unclassifiable e =
     e\<lparr>getLinksByClass := (\<lambda>c. filter classifiable (getLinksByClass e c))\<rparr>"

text \<open>
  The media types of the links of an image for an image class are plain when none is
  \<^verbatim>\<open>__proto__\<close> or the name of a built-in method of \<^verbatim>\<open>Object.prototype\<close>.
\<close>

definition plain_types :: "entity \<Rightarrow> string option \<Rightarrow> bool" where
  "plain_types e imageClass =
     list_all (\<lambda>l. \<not> proto_member (link_type l)) (getLinksByClass e (class_or_tile imageClass))"

text \<open>The widths of a breakpoint table, read in the order of \<^verbatim>\<open>_sizeNames\<close>.\<close>

definition widths_in_order :: "nat object \<Rightarrow> nat list" where
  "widths_in_order tbl = List.map_filter (get_prop tbl) sizeNames"

text \<open>The table that an image class selects, if it selects one.\<close>

definition class_table :: "realm \<Rightarrow> string option \<Rightarrow> nat object" where
  "class_table r imageClass =
     (case getSrcsetBreakpoints r imageClass of Table t \<Rightarrow> t | NoTable v \<Rightarrow> [])"

text \<open>
  The descriptors that the \<^verbatim>\<open>reduce\<close> of \<^verbatim>\<open>_getSrcSet\<close> appends for a list of size
  names, a size map and a table, each as the pair of its URL (with the timestamp when
  the flag is set) and its table entry; \<open>n\<close> is the number of clock readings made
  before.
\<close>

fun descriptors ::
  "clock \<Rightarrow> nat \<Rightarrow> sizes \<Rightarrow> nat object \<Rightarrow> bool option \<Rightarrow> string list \<Rightarrow>
   (string \<times> nat option) list" where
  "descriptors clk n sizes tbl f [] = []"
| "descriptors clk n sizes tbl f (k # ks) =
     (case get_prop sizes k of
        None \<Rightarrow> descriptors clk n sizes tbl f ks
      | Some sizeHref \<Rightarrow>
          if sizeHref = [] then descriptors clk n sizes tbl f ks
          else if flag_set f
          then (sizeHref @ separator sizeHref @ ''timestamp='' @ show_nat (clk n),
                get_prop tbl k)
                 # descriptors clk (Suc n) sizes tbl f ks
          else (sizeHref, get_prop tbl k) # descriptors clk n sizes tbl f ks)"

definition show_width :: "nat option \<Rightarrow> string" where
  "show_width w = (case w of None \<Rightarrow> ''undefined'' | Some n \<Rightarrow> show_nat n)"

definition render :: "string \<times> nat option \<Rightarrow> string" where
  "render d = fst d @ '' '' @ show_width (snd d) @ ''w''"

fun join_comma :: "string list \<Rightarrow> string" where
  "join_comma [] = []"
| "join_comma [x] = x"
| "join_comma (x # y # ys) = x @ '', '' @ join_comma (y # ys)"

text \<open>The number of clock readings that a list of descriptors stands for.\<close>

definition reads :: "bool option \<Rightarrow> 'a list \<Rightarrow> nat" where
  "reads f ds = (if flag_set f then length ds else 0)"

text \<open>The widths of the descriptors of a size map, from left to right.\<close>

definition srcset_widths :: "realm \<Rightarrow> sizes \<Rightarrow> string option \<Rightarrow> nat list" where
  "srcset_widths r sizes imageClass =
     List.map_filter (get_prop (class_table r imageClass))
       (filter (\<lambda>k. truthy (get_prop sizes k)) sizeNames)"



text \<open>Links used in the examples.\<close>

definition jpeg_min :: link where
  "jpeg_min = \<lparr>link_type = ''image/jpeg'', link_href = ''a.jpg'', classes = [''tile'', ''min'']\<rparr>"

definition jpeg_min_high :: link where
  "jpeg_min_high =
     \<lparr>link_type = ''image/jpeg'', link_href = ''b.jpg'',
      classes = [''tile'', ''min'', ''high-density'']\<rparr>"

definition png_plain :: link where
  "png_plain = \<lparr>link_type = ''image/png'', link_href = ''x.png'', classes = [''tile'']\<rparr>"




definition type_two :: link where
  "type_two = \<lparr>link_type = ''2'', link_href = ''two'', classes = [''tile'', ''min'']\<rparr>"

definition type_one :: link where
  "type_one = \<lparr>link_type = ''1'', link_href = ''one'', classes = [''tile'', ''min'']\<rparr>"





definition polluted_realm :: realm where
  "polluted_realm = \<lparr>proto_props = [(''lowMin'', ''b'')], fun_props = []\<rparr>"

section \<open>Objects\<close>

lemma get_prop_Nil: "get_prop [] k = None"
  by (simp add: get_prop_def)

lemma get_prop_Cons:
  "get_prop ((k, v) # obj) k' = (if k' = k then Some v else get_prop obj k')"
  by (simp add: get_prop_def)

lemma get_prop_set_prop:
  "get_prop (set_prop obj k v) k' = (if k' = k then Some v else get_prop obj k')"
  by (induction obj) (auto simp: get_prop_def)

lemma object_keys_Nil: "object_keys [] = []"
  by (simp add: object_keys_def)

lemma keys_set_prop:
  "set (object_keys (set_prop obj k v)) = insert k (set (object_keys obj))"
  by (induction obj k v rule: set_prop.induct) (auto simp: object_keys_def)

lemma get_prop_None_iff: "get_prop obj k = None \<longleftrightarrow> k \<notin> set (object_keys obj)"
  by (simp add: get_prop_def object_keys_def map_of_eq_None_iff)

lemma find_SomeD: "find P xs = Some x \<Longrightarrow> P x \<and> x \<in> set xs"
  by (induction xs) (auto split: if_splits)

lemma find_filter_weaken:
  "(\<And>x. P x \<Longrightarrow> Q x) \<Longrightarrow> find P (filter Q xs) = find P xs"
  by (induction xs) auto

text \<open>The enumeration of the own keys is a rearrangement of the keys.\<close>

lemma set_insert_index: "set (insert_index k js) = insert k (set js)"
  by (induction js) auto

lemma set_index_keys: "set (index_keys ks) = {k \<in> set ks. array_index k}"
  unfolding index_keys_def by (induction ks) (auto simp: set_insert_index)

lemma set_own_keys: "set (own_keys obj) = set (object_keys obj)"
  by (auto simp: own_keys_def set_index_keys)

lemma own_keys_Nil: "own_keys [] = []"
  by (simp add: own_keys_def index_keys_def object_keys_def)

text \<open>Without array indices the enumeration follows the order of creation.\<close>

lemma own_keys_no_index:
  assumes "list_all (\<lambda>k. \<not> array_index k) (object_keys obj)"
  shows "own_keys obj = object_keys obj"
proof -
  have "list_all (\<lambda>k. \<not> array_index k) ks \<Longrightarrow>
      filter array_index ks = [] \<and> filter (\<lambda>k. \<not> array_index k) ks = ks" for ks
    by (induction ks) auto
  with assms show ?thesis by (simp add: own_keys_def index_keys_def)
qed

lemma digits_le_total: "\<not> digits_le a b \<Longrightarrow> digits_le b a"
proof (induction a b rule: digits_le.induct)
  case (1 ys)
  then show ?case by simp
next
  case (2 x xs)
  show ?case by simp
next
  case (3 x xs y ys)
  have "(of_char x :: nat) < of_char y \<or> (of_char y :: nat) < of_char x" if "x \<noteq> y"
  proof -
    from that have "(of_char x :: nat) \<noteq> of_char y" by simp
    then show ?thesis by arith
  qed
  with 3 show ?case by (auto split: if_splits)
qed

lemma digits_le_trans:
  "length a = length b \<Longrightarrow> length b = length c \<Longrightarrow> digits_le a b \<Longrightarrow> digits_le b c \<Longrightarrow> digits_le a c"
proof (induction a b arbitrary: c rule: digits_le.induct)
  case (1 ys)
  then show ?case by simp
next
  case (2 x xs)
  then show ?case by simp
next
  case (3 x xs y ys)
  then obtain z zs where c: "c = z # zs" by (cases c) auto
  with 3 show ?case by (auto split: if_splits)
qed

lemma index_le_total: "\<not> index_le a b \<Longrightarrow> index_le b a"
  using digits_le_total [of a b] by (auto simp: index_le_def)

lemma index_le_trans: "index_le a b \<Longrightarrow> index_le b c \<Longrightarrow> index_le a c"
  using digits_le_trans [of a b c] by (auto simp: index_le_def)

lemma sorted_insert_index:
  "sorted_wrt index_le js \<Longrightarrow> sorted_wrt index_le (insert_index k js)"
proof (induction js)
  case Nil
  show ?case by simp
next
  case (Cons j js)
  show ?case
  proof (cases "index_le k j")
    case True
    with Cons.prems show ?thesis
      by (auto intro: index_le_trans)
  next
    case False
    then have "index_le j k" by (rule index_le_total)
    with False Cons show ?thesis
      by (auto simp: set_insert_index)
  qed
qed

text \<open>The array indices are enumerated in ascending order, as in the example of 2 and 10.\<close>

lemma sorted_index_keys: "sorted_wrt index_le (index_keys ks)"
  unfolding index_keys_def by (induction ks) (auto intro: sorted_insert_index)

lemma index_le_example: "index_le ''2'' ''10'' \<and> \<not> index_le ''10'' ''2''"
  by code_simp

section \<open>Plain media types in the standard environment\<close>

lemma proto_get_plain:
  "\<not> proto_member k \<Longrightarrow> proto_props r = [] \<Longrightarrow> proto_get r k = Undefined"
  by (simp add: proto_get_def proto_member_def get_prop_Nil)

lemma get_prop_as_objects:
  "get_prop (as_objects obj) t = map_option Obj (get_prop obj t)"
  by (induction obj) (auto simp: as_objects_def get_prop_def)

lemma set_prop_as_objects:
  "set_prop (as_objects obj) t (Obj s) = as_objects (set_prop obj t s)"
  by (induction obj) (auto simp: as_objects_def)

lemma add_link_plain:
  assumes "\<not> proto_member (link_type l)" and "proto_props r = []"
  shows "add_link r (as_objects obj) l = (Inr (as_objects (plain_add_link obj l)), r)"
proof -
  from assms(1) have np: "link_type l \<noteq> ''__proto__''"
    by (auto simp: proto_member_def)
  show ?thesis
  proof (cases "get_prop obj (link_type l)")
    case None
    then show ?thesis
      using np proto_get_plain [OF assms]
      by (simp add: add_link_def obj_get_def get_prop_as_objects js_truthy_def
          plain_add_link_def set_prop_as_objects)
  next
    case (Some s)
    then show ?thesis
      using np
      by (simp add: add_link_def obj_get_def get_prop_as_objects js_truthy_def
          plain_add_link_def set_prop_as_objects)
  qed
qed

lemma forEach_link_plain:
  assumes "list_all (\<lambda>l. \<not> proto_member (link_type l)) ls" and "proto_props r = []"
  shows "forEach_link r (as_objects obj) ls = (Inr (as_objects (foldl plain_add_link obj ls)), r)"
  using assms(1)
proof (induction ls arbitrary: obj)
  case Nil
  show ?case by simp
next
  case (Cons l ls)
  then have "\<not> proto_member (link_type l)" and "list_all (\<lambda>l. \<not> proto_member (link_type l)) ls"
    by simp_all
  then show ?case
    by (simp add: add_link_plain [OF _ assms(2)] Cons.IH)
qed

lemma getImageLinks_plain:
  assumes "plain_types e cls" and "proto_props r = []"
  shows "getImageLinks r e cls =
    (Inr (as_objects (foldl plain_add_link [] (getLinksByClass e (class_or_tile cls)))), r)"
  using forEach_link_plain [OF assms(1) [unfolded plain_types_def] assms(2), of "[]"]
  by (simp add: getImageLinks_def as_objects_def)

section \<open>The classifier\<close>

lemma size_at_as_objects:
  "size_at (as_objects obj) t k = (case get_prop obj t of None \<Rightarrow> None | Some s \<Rightarrow> get_prop s k)"
  by (simp add: size_at_def get_prop_as_objects split: option.splits)

lemma size_at_as_objects_Nil: "size_at (as_objects []) t k = None"
  by (simp add: size_at_as_objects get_prop_Nil)

lemma plain_size_at_add_link:
  "size_at (as_objects (plain_add_link obj l)) t k =
     (if link_type l = t \<and> size_key l = k then Some (link_href l)
      else size_at (as_objects obj) t k)"
  by (cases "get_prop obj (link_type l)")
     (simp_all add: size_at_as_objects plain_add_link_def get_prop_set_prop get_prop_Nil get_prop_Cons)

text \<open>
  An entry of the result is the target of the last link of that media type whose
  classes give that key.
\<close>

lemma plain_size_at_foldl:
  "size_at (as_objects (foldl plain_add_link obj ls)) t k =
     (case find (\<lambda>l. link_type l = t \<and> size_key l = k) (rev ls) of
        Some l \<Rightarrow> Some (link_href l)
      | None \<Rightarrow> size_at (as_objects obj) t k)"
proof (induction ls rule: rev_induct)
  case Nil
  show ?case by simp
next
  case (snoc l ls)
  show ?case by (simp add: plain_size_at_add_link snoc.IH)
qed

lemma plain_keys_add_link:
  "set (object_keys (plain_add_link obj l)) = insert (link_type l) (set (object_keys obj))"
  by (simp add: plain_add_link_def keys_set_prop)

lemma plain_keys_foldl:
  "set (object_keys (foldl plain_add_link obj ls)) = set (object_keys obj) \<union> link_type ` set ls"
  by (induction ls arbitrary: obj) (auto simp: plain_keys_add_link)

lemma keys_as_objects: "object_keys (as_objects obj) = object_keys obj"
  by (induction obj) (auto simp: as_objects_def object_keys_def)

lemma size_key_sizeName: "size_key l \<in> set sizeNames \<longleftrightarrow> classifiable l"
  by (simp add: size_key_def size_of_def density_of_def sizeNames_def classifiable_def)

lemma plain_types_drop:
  "plain_types e cls \<Longrightarrow> plain_types (drop_unclassifiable e) cls"
  by (simp add: plain_types_def drop_unclassifiable_def list_all_iff)

text \<open>
  Claim C1, as the specification states it, fails: in the standard environment a link of
  type \<^verbatim>\<open>image/png\<close> with the only class \<^verbatim>\<open>tile\<close> is not skipped. Its media type gets
  an entry, and its target is stored under the key \<^verbatim>\<open>lowfalse\<close>, which is none of the
  six size names.
\<close>

theorem getImageLinks_unclassified_counterexample:
  "getImageLinks initial_realm (hydrated [png_plain]) (Some ''tile'')
     = (Inr [(''image/png'', Obj [(''lowfalse'', ''x.png'')])], initial_realm)
   \<and> \<not> classifiable png_plain
   \<and> ''lowfalse'' \<notin> set sizeNames"
  by code_simp

text \<open>
  Claim C1, amended. In an environment where \<^verbatim>\<open>Object.prototype\<close> has no added
  property, for every entity and image class whose links have plain media types (none
  is \<^verbatim>\<open>__proto__\<close> or the name of a built-in method of \<^verbatim>\<open>Object.prototype\<close>),
  \<^verbatim>\<open>_getImageLinks\<close> returns normally and leaves the environment as it was, and a link
  that carries none of the classes min, mid and max writes none of the six size names:
  at each of them, for every media type, the result is the same as for the entity
  without these links, and an entry there is the target of a classifiable link of that
  media type whose classes give that key. A media type is a key of the result exactly
  when some link of the requested class has that type, classifiable or not.
\<close>

theorem getImageLinks_size_keys:
  assumes "k \<in> set sizeNames" and "plain_types img cls" and "proto_props r = []"
  shows "\<exists>obj obj'.
           getImageLinks r img cls = (Inr obj, r)
         \<and> getImageLinks r (drop_unclassifiable img) cls = (Inr obj', r)
         \<and> size_at obj t k = size_at obj' t k
         \<and> (\<forall>u. size_at obj t k = Some u \<longrightarrow>
               (\<exists>l \<in> set (getLinksByClass img (class_or_tile cls)).
                  classifiable l \<and> link_type l = t \<and> size_key l = k \<and> link_href l = u))
         \<and> (t \<in> set (own_keys obj) \<longleftrightarrow>
               (\<exists>l \<in> set (getLinksByClass img (class_or_tile cls)). link_type l = t))"
proof -
  let ?P = "\<lambda>l. link_type l = t \<and> size_key l = k"
  let ?ls = "getLinksByClass img (class_or_tile cls)"
  let ?obj = "as_objects (foldl plain_add_link [] ?ls)"
  let ?obj' = "as_objects (foldl plain_add_link [] (filter classifiable ?ls))"
  have imp: "\<And>l. ?P l \<Longrightarrow> classifiable l"
    using assms(1) size_key_sizeName by blast
  have r1: "getImageLinks r img cls = (Inr ?obj, r)"
    by (rule getImageLinks_plain [OF assms(2,3)])
  have r2: "getImageLinks r (drop_unclassifiable img) cls = (Inr ?obj', r)"
    using getImageLinks_plain [OF plain_types_drop [OF assms(2)] assms(3)]
    by (simp add: drop_unclassifiable_def)
  have same: "size_at ?obj t k = size_at ?obj' t k"
    by (simp add: plain_size_at_foldl rev_filter find_filter_weaken [of ?P classifiable, OF imp])
  have from_link:
    "\<exists>l \<in> set ?ls. classifiable l \<and> link_type l = t \<and> size_key l = k \<and> link_href l = u"
    if "size_at ?obj t k = Some u" for u
  proof -
    from that have "(case find ?P (rev ?ls) of Some l \<Rightarrow> Some (link_href l)
        | None \<Rightarrow> size_at (as_objects []) t k) = Some u"
      by (simp only: plain_size_at_foldl)
    then obtain l where f: "find ?P (rev ?ls) = Some l" and u: "link_href l = u"
      by (auto simp: size_at_as_objects_Nil split: option.splits)
    from f have "?P l" and "l \<in> set ?ls"
      by (auto dest: find_SomeD)
    with u imp show ?thesis by blast
  qed
  have keys: "t \<in> set (own_keys ?obj) \<longleftrightarrow> (\<exists>l \<in> set ?ls. link_type l = t)"
    by (auto simp: set_own_keys keys_as_objects plain_keys_foldl object_keys_Nil)
  from r1 r2 same from_link keys show ?thesis by blast
qed

theorem getImageLinks_size_keys_witness:
  "''lowMin'' \<in> set sizeNames
   \<and> plain_types (hydrated [png_plain, jpeg_min, jpeg_min_high]) (Some ''tile'')
   \<and> proto_props initial_realm = []
   \<and> (\<exists>obj obj'.
        getImageLinks initial_realm (hydrated [png_plain, jpeg_min, jpeg_min_high]) (Some ''tile'')
          = (Inr obj, initial_realm)
      \<and> getImageLinks initial_realm
          (drop_unclassifiable (hydrated [png_plain, jpeg_min, jpeg_min_high])) (Some ''tile'')
          = (Inr obj', initial_realm)
      \<and> size_at obj ''image/jpeg'' ''lowMin'' = size_at obj' ''image/jpeg'' ''lowMin'')
   \<and> getImageLinks initial_realm (hydrated [png_plain, jpeg_min, jpeg_min_high]) (Some ''tile'')
       = (Inr [(''image/png'', Obj [(''lowfalse'', ''x.png'')]),
               (''image/jpeg'', Obj [(''lowMin'', ''a.jpg''), (''highMin'', ''b.jpg'')])],
          initial_realm)"
proof -
  have k: "''lowMin'' \<in> set sizeNames"
    by (simp add: sizeNames_def)
  have p: "plain_types (hydrated [png_plain, jpeg_min, jpeg_min_high]) (Some ''tile'')"
    by code_simp
  have r: "proto_props initial_realm = []"
    by (simp add: initial_realm_def)
  have v: "getImageLinks initial_realm (hydrated [png_plain, jpeg_min, jpeg_min_high]) (Some ''tile'')
       = (Inr [(''image/png'', Obj [(''lowfalse'', ''x.png'')]),
               (''image/jpeg'', Obj [(''lowMin'', ''a.jpg''), (''highMin'', ''b.jpg'')])],
          initial_realm)"
    by code_simp
  from getImageLinks_size_keys [OF k p r, of "''image/jpeg''"]
  have "\<exists>obj obj'.
        getImageLinks initial_realm (hydrated [png_plain, jpeg_min, jpeg_min_high]) (Some ''tile'')
          = (Inr obj, initial_realm)
      \<and> getImageLinks initial_realm
          (drop_unclassifiable (hydrated [png_plain, jpeg_min, jpeg_min_high])) (Some ''tile'')
          = (Inr obj', initial_realm)
      \<and> size_at obj ''image/jpeg'' ''lowMin'' = size_at obj' ''image/jpeg'' ''lowMin''"
    by blast
  with k p r v show ?thesis by blast
qed

section \<open>The breakpoint tables\<close>

lemma tile_props:
  "get_prop tile_breakpoints ''lowMin'' = Some 145"
  "get_prop tile_breakpoints ''lowMid'' = Some 220"
  "get_prop tile_breakpoints ''lowMax'' = Some 540"
  "get_prop tile_breakpoints ''highMin'' = Some 290"
  "get_prop tile_breakpoints ''highMid'' = Some 440"
  "get_prop tile_breakpoints ''highMax'' = Some 1080"
  by (simp_all add: tile_breakpoints_def get_prop_Cons)

lemma narrow_props:
  "get_prop narrow_breakpoints ''lowMin'' = Some 320"
  "get_prop narrow_breakpoints ''lowMid'' = Some 375"
  "get_prop narrow_breakpoints ''lowMax'' = Some 767"
  "get_prop narrow_breakpoints ''highMin'' = Some 640"
  "get_prop narrow_breakpoints ''highMid'' = Some 750"
  "get_prop narrow_breakpoints ''highMax'' = Some 1534"
  by (simp_all add: narrow_breakpoints_def get_prop_Cons)

lemma widths_tile: "widths_in_order tile_breakpoints = [145, 220, 540, 290, 440, 1080]"
  by (simp add: widths_in_order_def sizeNames_def List.map_filter_def tile_props)

lemma widths_narrow: "widths_in_order narrow_breakpoints = [320, 375, 767, 640, 750, 1534]"
  by (simp add: widths_in_order_def sizeNames_def List.map_filter_def narrow_props)

text \<open>
  In an environment without added properties, an image class that is not a member of
  \<^verbatim>\<open>Object.prototype\<close> selects the tile table when it is \<^verbatim>\<open>tile\<close>, and the narrow
  table in every other case, also when it is absent.
\<close>

lemma getSrcsetBreakpoints_cases:
  assumes "\<not> proto_member (class_key cls)" and "proto_props r = []"
  shows "getSrcsetBreakpoints r cls =
     Table (if cls = Some ''tile'' then tile_breakpoints else narrow_breakpoints)"
proof -
  have "class_key cls = ''tile'' \<longleftrightarrow> cls = Some ''tile''"
    by (simp add: class_key_def split: option.splits)
  then show ?thesis
    using proto_get_plain [OF assms]
    by (simp add: getSrcsetBreakpoints_def srcSetBreakpoints_def get_prop_Cons get_prop_Nil
        js_truthy_def)
qed

lemma class_table_cases:
  assumes "\<not> proto_member (class_key cls)" and "proto_props r = []"
  shows "class_table r cls = (if cls = Some ''tile'' then tile_breakpoints else narrow_breakpoints)"
  by (simp add: class_table_def getSrcsetBreakpoints_cases [OF assms])

text \<open>
  Claim C3, as the specification states it, fails: read in the order of the size names,
  neither table is strictly increasing, since the third width (\<^verbatim>\<open>lowMax\<close>: 540, 767)
  is larger than the fourth (\<^verbatim>\<open>highMin\<close>: 290, 640).
\<close>

theorem breakpoints_not_increasing:
  "\<not> sorted_wrt (<) (widths_in_order tile_breakpoints)
   \<and> \<not> sorted_wrt (<) (widths_in_order narrow_breakpoints)"
  by (simp add: widths_tile widths_narrow)

text \<open>
  Claim C3, amended. In each of the two tables every width is a positive integer, and
  the widths are strictly increasing within each density group, read in the order of
  the size names: \<^verbatim>\<open>lowMin < lowMid < lowMax\<close> and \<^verbatim>\<open>highMin < highMid < highMax\<close>.
\<close>

theorem breakpoints_by_density:
  "widths_in_order tile_breakpoints = [145, 220, 540, 290, 440, 1080]
   \<and> widths_in_order narrow_breakpoints = [320, 375, 767, 640, 750, 1534]
   \<and> list_all (\<lambda>w. 0 < w) (widths_in_order tile_breakpoints)
   \<and> sorted_wrt (<) (take 3 (widths_in_order tile_breakpoints))
   \<and> sorted_wrt (<) (drop 3 (widths_in_order tile_breakpoints))
   \<and> list_all (\<lambda>w. 0 < w) (widths_in_order narrow_breakpoints)
   \<and> sorted_wrt (<) (take 3 (widths_in_order narrow_breakpoints))
   \<and> sorted_wrt (<) (drop 3 (widths_in_order narrow_breakpoints))"
  by (simp add: widths_tile widths_narrow)

section \<open>The srcset string\<close>

lemma val_get_Obj:
  "proto_props r = [] \<Longrightarrow> val_get r (Obj sz) k = Inr (get_prop sz k)"
  by (simp add: val_get_def size_read_def get_prop_Nil split: option.splits)

lemma width_text_Table:
  "proto_props r = [] \<Longrightarrow> width_text r (Table tbl) k = show_width (get_prop tbl k)"
  by (simp add: width_text_def show_width_def get_prop_Nil split: option.splits)

lemma srcset_step_Obj:
  assumes "proto_props r = []"
  shows "srcset_step r clk (Obj sz) (Table tbl) f (Inr acc, n) k =
     (Inr (acc @ concat (map (\<lambda>d. render d @ '', '') (descriptors clk n sz tbl f [k]))),
      n + reads f (descriptors clk n sz tbl f [k]))"
  by (simp add: srcset_step_def val_get_Obj [OF assms] width_text_Table [OF assms]
      render_def reads_def split: option.splits)

lemma descriptors_append:
  "descriptors clk n sz tbl f (ks @ ks') =
     descriptors clk n sz tbl f ks
       @ descriptors clk (n + reads f (descriptors clk n sz tbl f ks)) sz tbl f ks'"
  by (induction ks arbitrary: n) (simp_all add: reads_def split: option.splits)

lemma foldl_srcset_step:
  assumes "proto_props r = []"
  shows "foldl (srcset_step r clk (Obj sz) (Table tbl) f) (Inr acc, n) ks =
     (Inr (acc @ concat (map (\<lambda>d. render d @ '', '') (descriptors clk n sz tbl f ks))),
      n + reads f (descriptors clk n sz tbl f ks))"
proof (induction ks rule: rev_induct)
  case Nil
  show ?case by (simp add: reads_def)
next
  case (snoc k ks)
  show ?case
    by (simp add: snoc.IH srcset_step_Obj [OF assms] descriptors_append reads_def)
qed

text \<open>
  The regular expression removes the comma and the blank after the last descriptor,
  and nothing else, since the letter \<^verbatim>\<open>w\<close> stands before that comma.
\<close>

lemma strip_w_comma: "strip_trailing_comma (xs @ ''w, '') = xs @ ''w''"
  by (induction xs) (simp_all add: is_space_def)

lemma concat_render:
  "ds \<noteq> [] \<Longrightarrow> \<exists>ys. join_comma (map render ds) = ys @ ''w'' \<and>
      concat (map (\<lambda>d. render d @ '', '') ds) = ys @ ''w, ''"
proof (induction ds rule: induct_list012)
  case 1
  then show ?case by simp
next
  case (2 d)
  show ?case by (simp add: render_def)
next
  case (3 d e ds)
  then obtain ys where "join_comma (map render (e # ds)) = ys @ ''w''"
    and "concat (map (\<lambda>d. render d @ '', '') (e # ds)) = ys @ ''w, ''" by auto
  then show ?case by simp
qed

lemma strip_concat_render:
  "strip_trailing_comma (concat (map (\<lambda>d. render d @ '', '') ds)) = join_comma (map render ds)"
proof (cases ds)
  case Nil
  then show ?thesis by simp
next
  case (Cons d ds')
  then obtain ys where "join_comma (map render ds) = ys @ ''w''"
    and "concat (map (\<lambda>d. render d @ '', '') ds) = ys @ ''w, ''"
    using concat_render [of ds] by auto
  then show ?thesis by (simp only: strip_w_comma)
qed

lemma getSrcSet_Obj:
  assumes "proto_props r = []" and "getSrcsetBreakpoints r cls = Table tbl"
  shows "getSrcSet r clk n (Obj sz) cls f =
     (Inr (join_comma (map render (descriptors clk n sz tbl f sizeNames))),
      n + reads f (descriptors clk n sz tbl f sizeNames))"
  by (simp add: getSrcSet_def assms(2) foldl_srcset_step [OF assms(1)] strip_concat_render)

lemma getSrcSet_Undefined: "getSrcSet r clk n Undefined cls f = (Inl TypeError, n)"
  by (simp add: getSrcSet_def sizeNames_def srcset_step_def val_get_def)

lemma map_snd_descriptors:
  "map snd (descriptors clk n sz tbl f ks) =
     map (get_prop tbl) (filter (\<lambda>k. truthy (get_prop sz k)) ks)"
  by (induction ks arbitrary: n) (simp_all add: truthy_def split: option.splits)

lemma widths_all_Some:
  assumes "tbl = tile_breakpoints \<or> tbl = narrow_breakpoints"
  shows "map (get_prop tbl) (filter P sizeNames) =
     map Some (List.map_filter (get_prop tbl) (filter P sizeNames))"
proof -
  have t: "map (get_prop tile_breakpoints) (filter P sizeNames) =
     map Some (List.map_filter (get_prop tile_breakpoints) (filter P sizeNames))"
    by (simp add: sizeNames_def List.map_filter_def tile_props)
  have n: "map (get_prop narrow_breakpoints) (filter P sizeNames) =
     map Some (List.map_filter (get_prop narrow_breakpoints) (filter P sizeNames))"
    by (simp add: sizeNames_def List.map_filter_def narrow_props)
  from assms t n show ?thesis by blast
qed

lemma sorted_widths_iff:
  assumes "tbl = tile_breakpoints \<or> tbl = narrow_breakpoints"
  shows "sorted (List.map_filter (get_prop tbl) (filter (\<lambda>k. truthy (get_prop sizes k)) sizeNames))
     \<longleftrightarrow> \<not> (truthy (get_prop sizes ''lowMax'') \<and>
        (truthy (get_prop sizes ''highMin'') \<or> truthy (get_prop sizes ''highMid'')))"
proof -
  have t: "sorted (List.map_filter (get_prop tile_breakpoints)
        (filter (\<lambda>k. truthy (get_prop sizes k)) sizeNames))
     \<longleftrightarrow> \<not> (truthy (get_prop sizes ''lowMax'') \<and>
        (truthy (get_prop sizes ''highMin'') \<or> truthy (get_prop sizes ''highMid'')))"
    by (simp add: sizeNames_def List.map_filter_def tile_props)
  have n: "sorted (List.map_filter (get_prop narrow_breakpoints)
        (filter (\<lambda>k. truthy (get_prop sizes k)) sizeNames))
     \<longleftrightarrow> \<not> (truthy (get_prop sizes ''lowMax'') \<and>
        (truthy (get_prop sizes ''highMin'') \<or> truthy (get_prop sizes ''highMid'')))"
    by (simp add: sizeNames_def List.map_filter_def narrow_props)
  from assms t n show ?thesis by blast
qed

text \<open>
  Claim C4, as the specification states it, fails: for the size map with \<^verbatim>\<open>lowMax\<close>
  and \<^verbatim>\<open>highMin\<close> and the image class \<^verbatim>\<open>tile\<close>, the string is
  \<^verbatim>\<open>a 540w, b 290w\<close>, whose widths decrease.
\<close>

theorem getSrcSet_widths_decrease:
  "getSrcSet initial_realm (\<lambda>i. 0) 0 (Obj [(''lowMax'', ''a''), (''highMin'', ''b'')])
       (Some ''tile'') None
     = (Inr ''a 540w, b 290w'', 0)
   \<and> srcset_widths initial_realm [(''lowMax'', ''a''), (''highMin'', ''b'')] (Some ''tile'')
     = [540, 290]
   \<and> \<not> sorted (srcset_widths initial_realm [(''lowMax'', ''a''), (''highMin'', ''b'')]
          (Some ''tile''))"
  by code_simp

text \<open>
  The widths are numbers only when the image class selects a table: for the image
  class \<^verbatim>\<open>constructor\<close>, which every object inherits, there is no fallback to the
  narrow table and each width is printed as \<^verbatim>\<open>undefined\<close>.
\<close>

lemma getSrcSet_inherited_class:
  "getSrcSet initial_realm (\<lambda>i. 0) 0 (Obj [(''lowMin'', ''a'')]) (Some ''constructor'') None
     = (Inr ''a undefinedw'', 0)"
  by code_simp

text \<open>
  Claim C4, amended. In an environment where \<^verbatim>\<open>Object.prototype\<close> has no added
  property, for every size map, every cache-bust flag and every image class that is not
  a member of \<^verbatim>\<open>Object.prototype\<close> (\<^verbatim>\<open>__proto__\<close> or the name of a built-in method),
  the string that \<^verbatim>\<open>_getSrcSet\<close> returns is the descriptors of the size names with a
  non-empty URL, in the order of \<^verbatim>\<open>_sizeNames\<close>, joined by a comma and a blank, each
  carrying the width of its size name in the table of the image class. These widths are
  non-decreasing from left to right exactly when the size map does not hold a non-empty
  URL for \<^verbatim>\<open>lowMax\<close> together with one for \<^verbatim>\<open>highMin\<close> or \<^verbatim>\<open>highMid\<close>.
\<close>

theorem getSrcSet_widths:
  assumes "proto_props r = []" and "\<not> proto_member (class_key imageClass)"
  shows "fst (getSrcSet r clk n (Obj sizes) imageClass f) =
       Inr (join_comma (map render
              (descriptors clk n sizes (class_table r imageClass) f sizeNames)))
     \<and> map snd (descriptors clk n sizes (class_table r imageClass) f sizeNames) =
          map Some (srcset_widths r sizes imageClass)
     \<and> (sorted (srcset_widths r sizes imageClass) \<longleftrightarrow>
          \<not> (truthy (get_prop sizes ''lowMax'') \<and>
             (truthy (get_prop sizes ''highMin'') \<or> truthy (get_prop sizes ''highMid''))))"
proof -
  let ?tbl = "class_table r imageClass"
  have tbl: "?tbl = tile_breakpoints \<or> ?tbl = narrow_breakpoints"
    by (simp add: class_table_cases [OF assms(2,1)])
  have bp: "getSrcsetBreakpoints r imageClass = Table ?tbl"
    by (simp add: class_table_def getSrcsetBreakpoints_cases [OF assms(2,1)])
  have a: "fst (getSrcSet r clk n (Obj sizes) imageClass f) =
       Inr (join_comma (map render (descriptors clk n sizes ?tbl f sizeNames)))"
    by (simp add: getSrcSet_Obj [OF assms(1) bp])
  have b: "map snd (descriptors clk n sizes ?tbl f sizeNames) =
          map Some (srcset_widths r sizes imageClass)"
    by (simp only: map_snd_descriptors widths_all_Some [OF tbl] srcset_widths_def)
  have c: "sorted (srcset_widths r sizes imageClass) \<longleftrightarrow>
          \<not> (truthy (get_prop sizes ''lowMax'') \<and>
             (truthy (get_prop sizes ''highMin'') \<or> truthy (get_prop sizes ''highMid'')))"
    unfolding srcset_widths_def by (rule sorted_widths_iff [OF tbl])
  from a b c show ?thesis by blast
qed

theorem getSrcSet_widths_witness:
  "proto_props initial_realm = []
   \<and> \<not> proto_member (class_key (Some ''narrow''))
   \<and> fst (getSrcSet initial_realm (\<lambda>i. 0) 0 (Obj [(''highMin'', ''b''), (''lowMid'', ''a'')])
        (Some ''narrow'') None) = Inr ''a 375w, b 640w''
   \<and> srcset_widths initial_realm [(''highMin'', ''b''), (''lowMid'', ''a'')] (Some ''narrow'')
       = [375, 640]
   \<and> sorted (srcset_widths initial_realm [(''highMin'', ''b''), (''lowMid'', ''a'')]
       (Some ''narrow''))"
proof -
  have r: "proto_props initial_realm = []"
    by (simp add: initial_realm_def)
  have c: "\<not> proto_member (class_key (Some ''narrow''))"
    by code_simp
  have v: "fst (getSrcSet initial_realm (\<lambda>i. 0) 0 (Obj [(''highMin'', ''b''), (''lowMid'', ''a'')])
        (Some ''narrow'') None) = Inr ''a 375w, b 640w''"
    by code_simp
  have w: "srcset_widths initial_realm [(''highMin'', ''b''), (''lowMid'', ''a'')] (Some ''narrow'')
       = [375, 640]"
    by code_simp
  have t: "\<not> truthy (get_prop [(''highMin'', ''b''), (''lowMid'', ''a'')] ''lowMax'')"
    by (simp add: truthy_def get_prop_Cons get_prop_Nil)
  from getSrcSet_widths [OF r c, of "\<lambda>i. 0" 0 "[(''highMin'', ''b''), (''lowMid'', ''a'')]" None] t
  have "sorted (srcset_widths initial_realm [(''highMin'', ''b''), (''lowMid'', ''a'')]
       (Some ''narrow''))"
    by blast
  with r c v w show ?thesis by blast
qed

section \<open>Cache-busting\<close>

lemma split_on_no_sep: "c \<notin> set u \<Longrightarrow> split_on c u = [u]"
  by (induction u) auto

lemma split_on_first: "c \<notin> set p \<Longrightarrow> split_on c (p @ c # q) = p # split_on c q"
  by (induction p) auto

text \<open>
  A URL without a question mark gets \<^verbatim>\<open>?\<close>. A URL with one gets \<^verbatim>\<open>&\<close> only when
  the character after the first question mark exists and is not a question mark itself.
\<close>

lemma separator_no_query: "CHR ''?'' \<notin> set u \<Longrightarrow> separator u = ''?''"
  by (simp add: separator_def split_on_no_sep)

lemma separator_query:
  "CHR ''?'' \<notin> set p \<Longrightarrow> separator (p @ CHR ''?'' # q) =
     (if q = [] \<or> hd q = CHR ''?'' then ''?'' else ''&'')"
  by (cases q) (auto simp: separator_def split_on_first split: list.splits)

text \<open>
  Claim C8 does not hold of the code. The URL \<^verbatim>\<open>a.jpg??x=1\<close> has the query string
  \<^verbatim>\<open>?x=1\<close>, but \<^verbatim>\<open>split('?')[1]\<close> is the empty text between the two question marks,
  so the timestamp is joined with \<^verbatim>\<open>?\<close> and not with \<^verbatim>\<open>&\<close>.
\<close>

theorem getSrcSet_query_after_question_mark:
  "getSrcSet initial_realm (\<lambda>i. 7) 0 (Obj [(''lowMin'', ''a.jpg??x=1'')]) (Some ''tile'')
       (Some True)
     = (Inr ''a.jpg??x=1?timestamp=7 145w'', 1)
   \<and> CHR ''?'' \<in> set ''a.jpg??x=1''
   \<and> separator ''a.jpg??x=1'' = ''?''"
  by code_simp

section \<open>The best-type selector\<close>

lemma obj_get_own:
  "get_prop m t = Some v \<Longrightarrow> t \<noteq> ''__proto__'' \<Longrightarrow> obj_get r m t = v"
  by (simp add: obj_get_def)

lemma obj_get_missing:
  "get_prop m t = None \<Longrightarrow> \<not> proto_member t \<Longrightarrow> proto_props r = [] \<Longrightarrow>
   obj_get r m t = Undefined"
  by (simp add: obj_get_def proto_get_plain) (simp add: proto_member_def)

lemma jpeg_no_member: "\<not> proto_member ''image/jpeg''"
  by (simp add: proto_member_def builtin_names_def)

lemma forin_keys_plain: "proto_props r = [] \<Longrightarrow> forin_keys r m = own_keys m"
  by (simp add: forin_keys_def own_keys_Nil)

lemma bestOf_jpeg:
  "get_prop m ''image/jpeg'' = Some v \<Longrightarrow> js_truthy v \<Longrightarrow> bestOf r m = v"
  by (simp add: bestOf_def obj_get_own)

lemma bestOf_first:
  assumes "proto_props r = []" and "''__proto__'' \<notin> set (object_keys m)"
    and "get_prop m ''image/jpeg'' = None"
  shows "bestOf r m =
    (case own_keys m of
       [] \<Rightarrow> Undefined
     | t # _ \<Rightarrow> (case get_prop m t of Some v \<Rightarrow> v | None \<Rightarrow> Undefined))"
proof (cases "own_keys m")
  case Nil
  then show ?thesis
    using obj_get_missing [OF assms(3) jpeg_no_member assms(1)]
    by (simp add: bestOf_def js_truthy_def forin_keys_plain [OF assms(1)])
next
  case (Cons t ts)
  then have "t \<in> set (object_keys m)"
    using set_own_keys [of m] by auto
  with assms(2) have t: "t \<noteq> ''__proto__''" and "get_prop m t \<noteq> None"
    by (auto simp: get_prop_None_iff)
  then obtain v where v: "get_prop m t = Some v" by auto
  show ?thesis
    using obj_get_missing [OF assms(3) jpeg_no_member assms(1)] obj_get_own [OF v t, of r]
    by (simp add: bestOf_def js_truthy_def forin_keys_plain [OF assms(1)] Cons v)
qed

lemma bestOf_Nil: "proto_props r = [] \<Longrightarrow> bestOf r [] = Undefined"
  using obj_get_missing [OF get_prop_Nil jpeg_no_member, of r]
  by (simp add: bestOf_def js_truthy_def forin_keys_plain own_keys_Nil)

text \<open>
  Claim C6, as the specification states it, fails: with the media types \<^verbatim>\<open>2\<close> and
  then \<^verbatim>\<open>1\<close>, in this order of insertion, and no \<^verbatim>\<open>image/jpeg\<close>, the selector returns
  the size map of \<^verbatim>\<open>1\<close>, since \<^verbatim>\<open>for..in\<close> visits array indices in ascending order
  before all other keys.
\<close>

theorem getBestImageLinks_index_counterexample:
  "getImageLinks initial_realm (hydrated [type_two, type_one]) (Some ''tile'')
     = (Inr [(''2'', Obj [(''lowMin'', ''two'')]), (''1'', Obj [(''lowMin'', ''one'')])],
        initial_realm)
   \<and> getBestImageLinks initial_realm (hydrated [type_two, type_one]) (Some ''tile'')
     = (Inr (Obj [(''lowMin'', ''one'')]), initial_realm)"
  by code_simp

text \<open>
  Claim C6, amended. In an environment where \<^verbatim>\<open>Object.prototype\<close> has no added
  property, for every mapping from media types to size maps, the selector returns the
  \<^verbatim>\<open>image/jpeg\<close> size map whenever there is one, wherever it stands in the insertion
  order; without one it returns the size map of the first media type in the order of
  enumeration, which lists the media types that are array indices in ascending numeric
  order and then the others in insertion order, so that it is the first media type in
  insertion order when none is an array index; and on the empty mapping it returns an
  absent value. The function \<^verbatim>\<open>_getBestImageLinks\<close> applies this selection to the
  classifier's result, in the environment that the classifier leaves.
\<close>

theorem bestOf_policy:
  assumes "proto_props r = []" and "''__proto__'' \<notin> set (object_keys m)"
  shows "(\<forall>v. get_prop m ''image/jpeg'' = Some v \<and> js_truthy v \<longrightarrow> bestOf r m = v)
   \<and> (get_prop m ''image/jpeg'' = None \<longrightarrow>
        bestOf r m =
          (case own_keys m of
             [] \<Rightarrow> Undefined
           | t # _ \<Rightarrow> (case get_prop m t of Some v \<Rightarrow> v | None \<Rightarrow> Undefined)))
   \<and> own_keys m =
        index_keys (object_keys m) @ filter (\<lambda>k. \<not> array_index k) (object_keys m)
   \<and> sorted_wrt index_le (index_keys (object_keys m))
   \<and> (list_all (\<lambda>k. \<not> array_index k) (object_keys m) \<longrightarrow> own_keys m = object_keys m)
   \<and> bestOf r [] = Undefined
   \<and> getBestImageLinks r e cls =
        (case getImageLinks r e cls of
           (Inl err, r') \<Rightarrow> (Inl err, r')
         | (Inr linksByType, r') \<Rightarrow> (Inr (bestOf r' linksByType), r'))"
  using bestOf_jpeg [of m _ r] bestOf_first [OF assms] own_keys_no_index [of m]
    bestOf_Nil [OF assms(1)] sorted_index_keys [of "object_keys m"]
  by (simp add: getBestImageLinks_def own_keys_def)

theorem bestOf_policy_witness:
  "proto_props initial_realm = []
   \<and> ''__proto__'' \<notin> set (object_keys
        [(''image/webp'', Obj [(''lowMin'', ''w'')]), (''image/jpeg'', Obj [(''lowMin'', ''j'')])])
   \<and> get_prop
        [(''image/webp'', Obj [(''lowMin'', ''w'')]), (''image/jpeg'', Obj [(''lowMin'', ''j'')])]
        ''image/jpeg'' = Some (Obj [(''lowMin'', ''j'')])
   \<and> js_truthy (Obj [(''lowMin'', ''j'')])
   \<and> bestOf initial_realm
        [(''image/webp'', Obj [(''lowMin'', ''w'')]), (''image/jpeg'', Obj [(''lowMin'', ''j'')])]
      = Obj [(''lowMin'', ''j'')]"
proof -
  let ?m = "[(''image/webp'', Obj [(''lowMin'', ''w'')]), (''image/jpeg'', Obj [(''lowMin'', ''j'')])]"
  have r: "proto_props initial_realm = []"
    by (simp add: initial_realm_def)
  have p: "''__proto__'' \<notin> set (object_keys ?m)"
    by (simp add: object_keys_def)
  have g: "get_prop ?m ''image/jpeg'' = Some (Obj [(''lowMin'', ''j'')])"
    by (simp add: get_prop_Cons)
  have t: "js_truthy (Obj [(''lowMin'', ''j'')])"
    by (simp add: js_truthy_def)
  from bestOf_policy [OF r p] g t
  have "bestOf initial_realm ?m = Obj [(''lowMin'', ''j'')]"
    by blast
  with r p g t show ?thesis by blast
qed

section \<open>The default link\<close>











section \<open>Degenerate inputs\<close>

lemma getImageSrcset_no_links:
  assumes "\<not> truthy (href e)" and "getLinksByClass e (class_or_tile cls) = []"
    and "proto_props r = []"
  shows "getImageSrcset r clk n (Some e) cls f = (Inl TypeError, n, r)"
  using assms(1,2)
  by (simp add: getImageSrcset_def getBestImageLinks_def getImageLinks_def
      bestOf_Nil [OF assms(3)] getSrcSet_Undefined)

lemma entry_points_absent:
  "getPictureSrcsets r clk n None cls f = (Inr None, n, r)"
  "getImageSrcset r clk n None cls f = (Inr None, n, r)"
  "getDefaultImageLink r None cls = (Inr None, r)"
  by (simp_all add: getPictureSrcsets_def getImageSrcset_def getDefaultImageLink_def)

lemma entry_points_unhydrated:
  assumes "truthy (href e)"
  shows "getPictureSrcsets r clk n (Some e) cls f = (Inr None, n, r)"
    and "getImageSrcset r clk n (Some e) cls f = (Inr None, n, r)"
    and "getDefaultImageLink r (Some e) cls = (Inr None, r)"
  using assms
  by (simp_all add: getPictureSrcsets_def getImageSrcset_def getDefaultImageLink_def)

text \<open>
  Claim C2 does not hold of the code. On a hydrated image with no link of the requested
  class, in the standard environment, the selector returns \<^verbatim>\<open>undefined\<close>, and
  \<^verbatim>\<open>getImageSrcset\<close> passes it to \<^verbatim>\<open>_getSrcSet\<close>, where reading \<^verbatim>\<open>sizes[sizeName]\<close>
  throws a \<^verbatim>\<open>TypeError\<close>. On the same input \<^verbatim>\<open>getDefaultImageLink\<close>, which tests
  \<^verbatim>\<open>!sizes\<close> first, returns an absent value, and \<^verbatim>\<open>getPictureSrcsets\<close> returns the
  empty array.
\<close>

theorem getImageSrcset_no_links_raises:
  "getImageSrcset initial_realm clk n (Some (hydrated [])) (Some ''tile'') (Some False)
     = (Inl TypeError, n, initial_realm)
   \<and> getDefaultImageLink initial_realm (Some (hydrated [])) (Some ''tile'')
     = (Inr None, initial_realm)
   \<and> getPictureSrcsets initial_realm clk n (Some (hydrated [])) (Some ''tile'') (Some False)
     = (Inr (Some []), n, initial_realm)"
  by code_simp

text \<open>
  Claim C9. For every hydrated image (no \<^verbatim>\<open>href\<close>, or an empty one) whose links of the
  requested image class are none, in every environment, \<^verbatim>\<open>getPictureSrcsets\<close> returns
  the empty array, a present empty list and not an absent value, without raising,
  without reading the clock and without a change to the environment.
\<close>

theorem getPictureSrcsets_no_links:
  "\<not> truthy (href e) \<Longrightarrow> getLinksByClass e (class_or_tile cls) = [] \<Longrightarrow>
   getPictureSrcsets r clk n (Some e) cls f = (Inr (Some []), n, r)"
  by (simp add: getPictureSrcsets_def getImageLinks_def own_keys_Nil)

theorem getPictureSrcsets_no_links_witness:
  "\<not> truthy (href (hydrated [jpeg_min]))
   \<and> getLinksByClass (hydrated [jpeg_min]) (class_or_tile (Some ''narrow'')) = []
   \<and> getPictureSrcsets polluted_realm (\<lambda>i. i) 0 (Some (hydrated [jpeg_min])) (Some ''narrow'')
       (Some True)
       = (Inr (Some []), 0, polluted_realm)"
proof -
  have h: "\<not> truthy (href (hydrated [jpeg_min]))"
    by (simp add: hydrated_def truthy_def)
  have l: "getLinksByClass (hydrated [jpeg_min]) (class_or_tile (Some ''narrow'')) = []"
    by code_simp
  from getPictureSrcsets_no_links [OF h l, of polluted_realm "\<lambda>i. i" 0 "Some True"] h l
  show ?thesis by simp
qed

section \<open>Independence of the clock and of earlier calls\<close>















section \<open>The end-to-end example\<close>

text \<open>
  Claim C5. Two \<^verbatim>\<open>image/jpeg\<close> links, \<^verbatim>\<open>a.jpg\<close> with the classes tile and min and
  \<^verbatim>\<open>b.jpg\<close> with the classes tile, min and high-density, on a hydrated image: with the
  image class \<^verbatim>\<open>tile\<close> and cache-busting off (the flag false or absent), in the
  standard environment, \<^verbatim>\<open>getImageSrcset\<close> returns exactly \<^verbatim>\<open>a.jpg 145w, b.jpg 290w\<close>;
  the clock is not read and the environment stays as it is.
\<close>

theorem getImageSrcset_example:
  "getImageSrcset initial_realm clk n
     (Some (hydrated
        [\<lparr>link_type = ''image/jpeg'', link_href = ''a.jpg'', classes = [''tile'', ''min'']\<rparr>,
         \<lparr>link_type = ''image/jpeg'', link_href = ''b.jpg'',
            classes = [''tile'', ''min'', ''high-density'']\<rparr>]))
     (Some ''tile'') (Some False)
   = (Inr (Some ''a.jpg 145w, b.jpg 290w''), n, initial_realm)
   \<and> getImageSrcset initial_realm clk n
     (Some (hydrated
        [\<lparr>link_type = ''image/jpeg'', link_href = ''a.jpg'', classes = [''tile'', ''min'']\<rparr>,
         \<lparr>link_type = ''image/jpeg'', link_href = ''b.jpg'',
            classes = [''tile'', ''min'', ''high-density'']\<rparr>]))
     (Some ''tile'') None
   = (Inr (Some ''a.jpg 145w, b.jpg 290w''), n, initial_realm)"
  by code_simp

end
